theory Spec2Isabelle
  imports Main "HOL-Library.AList"
begin

section \<open>Python values, errors and dictionaries\<close>

text \<open>
  The module \<^verbatim>\<open>mill/setup.py\<close> is embedded function by function. Exceptions are
  values of \<open>error\<close>; a computation that touches the outside world (filesystem, config
  store, shell, the class-level registry objects) takes the \<open>world\<close> and returns the new
  one together with either the error raised or the value returned.
\<close>

text \<open>
  \<open>FileNotFoundError\<close> and \<open>FileExistsError\<close> are the two subclasses of \<^verbatim>\<open>OSError\<close> that
  \<^verbatim>\<open>os.path.getmtime\<close> and \<^verbatim>\<open>os.mkdir\<close> raise here; \<open>SystemExit\<close> is what \<^verbatim>\<open>sys.exit\<close>
  raises. \<open>NotModelled\<close> marks the three places where the embedding stops (they are named
  where they occur); no property below is stated for a run that reaches one.
\<close>

datatype error =
    SystemExit nat
  | Exception string
  | FileNotFoundError string
  | FileExistsError string
  | ValueError string
  | TypeError
  | KeyError string
  | AttributeError string
  | UnboundLocalError string
  | CommandExecutionError string
  | NotModelled string

text \<open>
  The Python values that occur in the registry and in the config: \<open>None\<close>, strings,
  booleans, lists of strings, and references to dictionary objects. A dictionary is
  held by reference (\<open>VRef\<close>), since \<^verbatim>\<open>dict(meta['virtualenv'])\<close> is a shallow copy and
  \<^verbatim>\<open>self.__dict__[key] = self.meta[kind][key]\<close> copies references. Lists are never
  written to by this module, so they are carried as values.
\<close>

datatype pyval = VNone | VStr string | VBool bool | VList "string list" | VRef nat

text \<open>A dict keeps its keys in insertion order; assignment to an existing key keeps its place.\<close>

type_synonym pydict = "(string \<times> pyval) list"
type_synonym pyheap = "nat \<rightharpoonup> pydict"
type_synonym config = "string \<rightharpoonup> pyval"

definition dict_set :: "string \<Rightarrow> pyval \<Rightarrow> pydict \<Rightarrow> pydict" where
  "dict_set k v d = AList.update k v d"

definition dict_get :: "pydict \<Rightarrow> string \<Rightarrow> error + pyval" where
  "dict_get d k = (case map_of d k of None \<Rightarrow> Inl (KeyError k) | Some v \<Rightarrow> Inr v)"

definition dict_keys :: "pydict \<Rightarrow> string list" where
  "dict_keys d = map fst d"

definition config_get :: "config \<Rightarrow> string \<Rightarrow> pyval" where
  \<comment> \<open>\<^verbatim>\<open>config.get(k, None)\<close>\<close>
  "config_get c k = (case c k of None \<Rightarrow> VNone | Some v \<Rightarrow> v)"

definition heap_dict :: "pyheap \<Rightarrow> nat \<Rightarrow> pydict" where
  "heap_dict h a = (case h a of None \<Rightarrow> [] | Some d \<Rightarrow> d)"

fun truthy :: "pyheap \<Rightarrow> pyval \<Rightarrow> bool" where
  "truthy h VNone = False"
| "truthy h (VStr s) = (s \<noteq> [])"
| "truthy h (VBool b) = b"
| "truthy h (VList xs) = (xs \<noteq> [])"
| "truthy h (VRef a) = (heap_dict h a \<noteq> [])"

fun py_iter :: "pyheap \<Rightarrow> pyval \<Rightarrow> error + string list" where
  "py_iter h (VList xs) = Inr xs"
| "py_iter h (VStr s) = Inr (map (\<lambda>c. [c]) s)"
| "py_iter h (VRef a) = Inr (dict_keys (heap_dict h a))"
| "py_iter h VNone = Inl TypeError"
| "py_iter h (VBool b) = Inl TypeError"

fun py_str :: "pyval \<Rightarrow> error + string" where
  \<comment> \<open>the operand of a string concatenation \<^verbatim>\<open>v + '...'\<close>\<close>
  "py_str (VStr s) = Inr s"
| "py_str v = Inl TypeError"

fun py_in_keys :: "pyval \<Rightarrow> pydict \<Rightarrow> error + bool" where
  \<comment> \<open>\<^verbatim>\<open>v in d\<close>: lists and dicts are unhashable\<close>
  "py_in_keys (VStr s) d = Inr (s \<in> set (dict_keys d))"
| "py_in_keys VNone d = Inr False"
| "py_in_keys (VBool b) d = Inr False"
| "py_in_keys (VList xs) d = Inl TypeError"
| "py_in_keys (VRef a) d = Inl TypeError"

section \<open>Decimal strings and the timestamp format\<close>

definition digit_char :: "nat \<Rightarrow> char" where
  "digit_char d = ''0123456789'' ! d"

fun show_nat :: "nat \<Rightarrow> string" where
  "show_nat n = (if n < 10 then [digit_char n] else show_nat (n div 10) @ [digit_char (n mod 10)])"

declare show_nat.simps [simp del]

definition is_digit :: "char \<Rightarrow> bool" where
  "is_digit c = (c \<in> set ''0123456789'')"

definition digit_val :: "char \<Rightarrow> nat" where
  "digit_val c = of_char c - 48"

definition nat_of_digits :: "string \<Rightarrow> nat" where
  "nat_of_digits s = foldl (\<lambda>a c. 10 * a + digit_val c) 0 s"

text \<open>
  \<^verbatim>\<open>int(s)\<close> on a string, as Python 3.11 converts it in base 10. A character is a code
  point below 256. Whitespace around the number is dropped: the six ASCII whitespace
  characters, and of the others \<^verbatim>\<open>\x85\<close> and \<^verbatim>\<open>\xa0\<close>. Then comes an optional sign, then
  digits, between any two of which a single underscore may stand. At most 4300 digits are
  converted (leading zeros count, underscores do not); a longer number is a
  \<^verbatim>\<open>ValueError\<close>, like a malformed one.
\<close>

definition is_space :: "char \<Rightarrow> bool" where
  "is_space c =
     (c \<in> set [CHR 0x09, CHR 0x0A, CHR 0x0B, CHR 0x0C, CHR 0x0D, CHR 0x20, CHR 0x85, CHR 0xA0])"

definition strip :: "string \<Rightarrow> string" where
  "strip s = rev (dropWhile is_space (rev (dropWhile is_space s)))"

fun digit_groups :: "string \<Rightarrow> bool" where
  \<comment> \<open>digits, with single underscores only between two digits\<close>
  "digit_groups [] = False"
| "digit_groups [c] = is_digit c"
| "digit_groups (c # d # r) =
     (is_digit c \<and> (if d = CHR ''_'' then digit_groups r else digit_groups (d # r)))"

definition max_str_digits :: nat where
  \<comment> \<open>the default of \<^verbatim>\<open>sys.get_int_max_str_digits()\<close>\<close>
  "max_str_digits = 4300"

definition py_int_str :: "string \<Rightarrow> error + int" where
  "py_int_str s =
     (let t = strip s;
          neg = (case t of [] \<Rightarrow> False | c # r \<Rightarrow> c = CHR ''-'');
          body = (case t of [] \<Rightarrow> [] | c # r \<Rightarrow> if c = CHR ''-'' \<or> c = CHR ''+'' then r else t);
          ds = filter (\<lambda>c. c \<noteq> CHR ''_'') body
      in if digit_groups body \<and> length ds \<le> max_str_digits
         then Inr (if neg then - int (nat_of_digits ds) else int (nat_of_digits ds))
         else Inl (ValueError s))"

fun py_int :: "pyval \<Rightarrow> error + int" where
  "py_int (VStr s) = py_int_str s"
| "py_int (VBool b) = Inr (if b then 1 else 0)"
| "py_int VNone = Inl TypeError"
| "py_int (VList xs) = Inl TypeError"
| "py_int (VRef a) = Inl TypeError"

text \<open>
  The fields of \<^verbatim>\<open>time.struct_time\<close> that the format \<^verbatim>\<open>'%Y%m%d%H%M%s'\<close> reads. The
  directive \<^verbatim>\<open>%s\<close> (lower case) is the C library's seconds since the epoch of the
  broken-down time, that is the seconds value \<^verbatim>\<open>time.localtime\<close> was given.
\<close>

record struct_time =
  tm_year :: nat
  tm_mon :: nat
  tm_mday :: nat
  tm_hour :: nat
  tm_min :: nat

definition pad2 :: "nat \<Rightarrow> string" where
  "pad2 n = (if n < 10 then CHR ''0'' # show_nat n else show_nat n)"

definition strftime_stamp :: "struct_time \<Rightarrow> nat \<Rightarrow> string" where
  \<comment> \<open>\<^verbatim>\<open>time.strftime('%Y%m%d%H%M%s', st)\<close>, \<open>secs\<close> the epoch seconds of \<open>st\<close>\<close>
  "strftime_stamp st secs =
     show_nat (tm_year st) @ pad2 (tm_mon st) @ pad2 (tm_mday st) @ pad2 (tm_hour st)
       @ pad2 (tm_min st) @ show_nat secs"

section \<open>The environment and the world\<close>

text \<open>
  What the run reads from outside and cannot change: the clock reading when the
  registration formats its stamp, the modification time a folder gets when \<^verbatim>\<open>os.mkdir\<close>
  creates it, the local-time conversion, and the outcomes of the collaborators of module
  \<^verbatim>\<open>config\<close> (\<^verbatim>\<open>bash\<close>, \<^verbatim>\<open>is_terminal_command\<close>, \<^verbatim>\<open>abspath\<close>), which are not part of this
  module.
\<close>

record env =
  now :: nat
  mkdir_time :: "string \<Rightarrow> nat"
  localtime :: "nat \<Rightarrow> struct_time"
  bash_ok :: "string \<Rightarrow> bool"
  is_terminal_command :: "string \<Rightarrow> bool"
  getcwd :: string
  abspath :: "string \<Rightarrow> string"

datatype event =
    Invoke string
  | Return string
  | Bash string "string option"
  | WriteConfig

text \<open>
  \<open>fs\<close>: what exists at each path, seen from the working directory, a regular file or a
  directory, with its modification time in whole seconds (the process may read and write
  there); \<open>stored\<close>: the persisted config; \<open>heap\<close>: the dictionary objects of the process
  (the class attribute \<^verbatim>\<open>meta\<close> and what it refers to); \<open>trace\<close>: the hook dispatches, shell
  commands and config writes so far.
\<close>

datatype node = File nat | Dir nat

record world =
  fs :: "string \<rightharpoonup> node"
  stored :: config
  heap :: pyheap
  trace :: "event list"

type_synonym 'a action = "world \<Rightarrow> (error + 'a) \<times> world"

definition ret :: "'a \<Rightarrow> 'a action" where
  "ret x w = (Inr x, w)"

definition raise :: "error \<Rightarrow> 'a action" where
  "raise e w = (Inl e, w)"

definition lift :: "error + 'a \<Rightarrow> 'a action" where
  "lift r w = (r, w)"

definition and_then :: "'a action \<Rightarrow> ('a \<Rightarrow> 'b action) \<Rightarrow> 'b action" where
  "and_then f g w = (case f w of (Inl e, w') \<Rightarrow> (Inl e, w') | (Inr x, w') \<Rightarrow> g x w')"

definition emit :: "event \<Rightarrow> unit action" where
  "emit ev w = (Inr (), w\<lparr>trace := trace w @ [ev]\<rparr>)"

fun for_each :: "'a list \<Rightarrow> ('a \<Rightarrow> unit action) \<Rightarrow> unit action" where
  "for_each [] body = ret ()"
| "for_each (x # xs) body = and_then (body x) (\<lambda>_. for_each xs body)"

definition isdir :: "world \<Rightarrow> string \<Rightarrow> bool" where
  \<comment> \<open>\<^verbatim>\<open>os.path.isdir\<close>\<close>
  "isdir w p = (case fs w p of Some (Dir t) \<Rightarrow> True | _ \<Rightarrow> False)"

definition isfile :: "world \<Rightarrow> string \<Rightarrow> bool" where
  \<comment> \<open>\<^verbatim>\<open>os.path.isfile\<close>\<close>
  "isfile w p = (case fs w p of Some (File t) \<Rightarrow> True | _ \<Rightarrow> False)"

definition getmtime :: "world \<Rightarrow> string \<Rightarrow> error + nat" where
  \<comment> \<open>\<^verbatim>\<open>os.path.getmtime\<close>: of a file or of a directory; it raises when nothing is there\<close>
  "getmtime w p =
     (case fs w p of
        None \<Rightarrow> Inl (FileNotFoundError p)
      | Some (File t) \<Rightarrow> Inr t
      | Some (Dir t) \<Rightarrow> Inr t)"

definition mkdir :: "env \<Rightarrow> string \<Rightarrow> unit action" where
  \<comment> \<open>\<^verbatim>\<open>os.mkdir\<close>: it raises when the path exists, whatever is there\<close>
  "mkdir e p w =
     (case fs w p of
        None \<Rightarrow> (Inr (), w\<lparr>fs := (fs w)(p \<mapsto> Dir (mkdir_time e p))\<rparr>)
      | Some n \<Rightarrow> (Inl (FileExistsError p), w))"

definition bash :: "env \<Rightarrow> string \<Rightarrow> string option \<Rightarrow> unit action" where
  \<comment> \<open>Modelled from the spec: \<^verbatim>\<open>config.bash\<close> is not in this module; the spec's ShellExecutor
      runs the command, and a non-zero exit is raised as CommandExecutionError.\<close>
  "bash e cmd log =
     and_then (emit (Bash cmd log))
       (\<lambda>_. if bash_ok e cmd then ret () else raise (CommandExecutionError cmd))"

definition read_config :: "config action" where
  \<comment> \<open>Modelled from the spec: \<^verbatim>\<open>config.read_config\<close> is not in this module; the spec's
      ConfigStore \<^verbatim>\<open>read()\<close> returns the persisted key/value map.\<close>
  "read_config w = (Inr (stored w), w)"

definition write_config :: "config \<Rightarrow> unit action" where
  \<comment> \<open>Modelled from the spec: \<^verbatim>\<open>config.write_config\<close> is not in this module; the spec's
      ConfigStore \<^verbatim>\<open>write(map)\<close> persists the map.\<close>
  "write_config c w = (Inr (), w\<lparr>stored := c, trace := trace w @ [WriteConfig]\<rparr>)"

section \<open>The class body: the registry \<^verbatim>\<open>meta\<close>\<close>

text \<open>
  The objects the class body creates, by address: 10 is \<^verbatim>\<open>meta\<close> itself, 11 and 12 the
  dictionaries of \<^verbatim>\<open>'virtualenv'\<close> and \<^verbatim>\<open>'anaconda'\<close>, 13 and 14 their
  \<^verbatim>\<open>'loader_commands'\<close> dictionaries, 15 the copy made for \<^verbatim>\<open>'virtualenv_sandbox'\<close>.
\<close>

definition meta_literal :: pyheap where
  "meta_literal =
    [10 \<mapsto> [(''virtualenv'', VRef 11), (''anaconda'', VRef 12)],
     11 \<mapsto> [(''reqs'', VList [''mill/requirements_virtualenv.txt'']),
           (''setup_kickstart'', VStr ''setup_virtualenv''),
           (''setup_refresh'', VStr ''setup_virtualenv_refresh''),
           (''loader_commands'', VRef 13),
           (''welcome'', VStr ''welcome_message''),
           (''source_cmd'', VStr ''source env/bin/activate'')],
     12 \<mapsto> [(''reqs_conda'', VList [''mill/requirements_anaconda_conda.txt'']),
           (''reqs_pip'', VList [''mill/requirements_anaconda_pip.txt'']),
           (''setup_kickstart'', VStr ''setup_anaconda''),
           (''setup_refresh'', VStr ''setup_anaconda_refresh''),
           (''loader_commands'', VRef 14),
           (''welcome'', VStr ''welcome_message''),
           (''source_cmd'', VStr ''source env/bin/activate''),
           (''use_python2'', VBool True)],
     13 \<mapsto> [(''env_activate'', VStr ''env/bin/activate''),
           (''env_deactivate'', VStr ''deactivate'')],
     14 \<mapsto> [(''env_activate'', VStr ''env/bin/activate''),
           (''env_deactivate'', VStr ''deactivate'')]]"

definition class_heap :: pyheap where
  \<comment> \<open>\<^verbatim>\<open>meta['virtualenv_sandbox'] = dict(meta['virtualenv'])\<close>, then
      \<^verbatim>\<open>meta['virtualenv_sandbox']['setup_kickstart'] = 'setup_virtualenv_sandbox'\<close>\<close>
  "class_heap =
     (let h = meta_literal;
          h = h(15 \<mapsto> heap_dict h 11);
          h = h(10 \<mapsto> dict_set ''virtualenv_sandbox'' (VRef 15) (heap_dict h 10));
          h = h(15 \<mapsto> dict_set ''setup_kickstart'' (VStr ''setup_virtualenv_sandbox'') (heap_dict h 15))
      in h)"

definition required_folders :: "string list" where
  "required_folders = [''logs'', ''connections'']"

definition meta :: "pyheap \<Rightarrow> pydict" where
  \<comment> \<open>\<^verbatim>\<open>self.meta\<close>\<close>
  "meta h = heap_dict h 10"

definition meta_item :: "pyheap \<Rightarrow> string \<Rightarrow> error + pydict" where
  \<comment> \<open>\<^verbatim>\<open>self.meta[kind]\<close>\<close>
  "meta_item h kind =
     (case dict_get (meta h) kind of
        Inl e \<Rightarrow> Inl e
      | Inr (VRef a) \<Rightarrow> Inr (heap_dict h a)
      | Inr v \<Rightarrow> Inl TypeError)"

section \<open>The object and its methods\<close>

text \<open>
  \<open>self_config\<close> is \<^verbatim>\<open>self.config\<close>; \<open>self_dict\<close> holds the other entries of
  \<^verbatim>\<open>self.__dict__\<close> in insertion order: \<^verbatim>\<open>timestamp\<close>, \<^verbatim>\<open>kind\<close>, then the fields
  of the species.
\<close>

record FactoryEnv =
  self_config :: config
  self_dict :: pydict

definition getattr_val :: "FactoryEnv \<Rightarrow> string \<Rightarrow> error + pyval" where
  \<comment> \<open>reading a data attribute \<^verbatim>\<open>self.name\<close>\<close>
  "getattr_val self name =
     (case map_of (self_dict self) name of None \<Rightarrow> Inl (AttributeError name) | Some v \<Rightarrow> Inr v)"

definition setattr_val :: "string \<Rightarrow> pyval \<Rightarrow> FactoryEnv \<Rightarrow> FactoryEnv" where
  "setattr_val name v self = self\<lparr>self_dict := dict_set name v (self_dict self)\<rparr>"

definition basename :: "string \<Rightarrow> string" where
  \<comment> \<open>\<^verbatim>\<open>os.path.basename\<close>: what follows the last slash\<close>
  "basename p = rev (takeWhile (\<lambda>c. c \<noteq> CHR ''/'') (rev p))"

fun join :: "string \<Rightarrow> string list \<Rightarrow> string" where
  "join sep [] = []"
| "join sep [x] = x"
| "join sep (x # y # ys) = x @ sep @ join sep (y # ys)"

definition quoted :: "string \<Rightarrow> string" where
  \<comment> \<open>\<^verbatim>\<open>"'%s'" % i\<close>\<close>
  "quoted s = CHR 0x27 # s @ [CHR 0x27]"

definition virtualenv_fail :: "string \<Rightarrow> string option \<Rightarrow> 'a action" where
  "virtualenv_fail name extra =
     (let message = ''failed to create a virtual environment: missing '' @ name @ ''. '';
          message = (case extra of None \<Rightarrow> message
                     | Some x \<Rightarrow> if x \<noteq> [] then message @ x else message)
      in raise (Exception message))"

definition setup_virtualenv :: "env \<Rightarrow> bool \<Rightarrow> FactoryEnv \<Rightarrow> FactoryEnv action" where
  \<comment> \<open>the block under \<^verbatim>\<open>if False:\<close> never runs\<close>
  "setup_virtualenv e sandbox self =
     (if is_terminal_command e ''virtualenv'' then virtualenv_fail ''virtualenv'' None
      else
        let venv_opts = (if sandbox then ''--no-site-packages '' else ''--system-site-packages '')
        in and_then (bash e (''virtualenv '' @ venv_opts @ ''env'') (Some ''logs/log-virtualenv''))
             (\<lambda>_. ret self))"

definition setup_virtualenv_sandbox :: "env \<Rightarrow> FactoryEnv \<Rightarrow> FactoryEnv action" where
  "setup_virtualenv_sandbox e self = setup_virtualenv e True self"

definition required_upgrades :: "string list" where
  "required_upgrades = [''Sphinx>=1.4.4'', ''numpydoc'', ''sphinx-better-theme'', ''beautifulsoup4'']"

definition setup_virtualenv_refresh :: "env \<Rightarrow> FactoryEnv \<Rightarrow> FactoryEnv action" where
  "setup_virtualenv_refresh e self =
     and_then (\<lambda>w. (case getattr_val self ''reqs'' of Inl x \<Rightarrow> Inl x | Inr v \<Rightarrow> py_iter (heap w) v, w))
       (\<lambda>fns.
     and_then (for_each fns (\<lambda>fn.
         and_then (lift (case getattr_val self ''source_cmd'' of Inl x \<Rightarrow> Inl x | Inr v \<Rightarrow> py_str v))
           (\<lambda>source_cmd. bash e (source_cmd @ '' && pip install -r '' @ fn)
                (Some (''logs/log-virtualenv-pip-'' @ basename fn)))))
       (\<lambda>_.
     and_then (lift (case getattr_val self ''source_cmd'' of Inl x \<Rightarrow> Inl x | Inr v \<Rightarrow> py_str v))
       (\<lambda>source_cmd.
     and_then (bash e (source_cmd @ '' && pip install -U '' @ join '' '' (map quoted required_upgrades))
                (Some ''logs/log-virtualenv-pip''))
       (\<lambda>_. ret self))))"

definition welcome_message :: "FactoryEnv \<Rightarrow> FactoryEnv action" where
  \<comment> \<open>prints the path of the interpreter; console output is not part of the world\<close>
  "welcome_message self = ret self"

definition setup_anaconda :: "env \<Rightarrow> FactoryEnv \<Rightarrow> FactoryEnv action" where
  "setup_anaconda e self =
     and_then (\<lambda>w. (Inr (truthy (heap w) (config_get (self_config self) ''anaconda_location'')), w))
       (\<lambda>has_location.
     if \<not> has_location
     then raise (Exception (''download anaconda and run '' @ [CHR 0x60]
                   @ ''make set anaconda_location <path>'' @ [CHR 0x60]))
     else
     and_then (lift (py_str (config_get (self_config self) ''anaconda_location'')))
       (\<lambda>anaconda_location.
     let install_fn = abspath e anaconda_location in
     and_then (\<lambda>w. (Inr (isfile w install_fn), w))
       (\<lambda>isfile.
     if \<not> isfile then raise (Exception (''cannot find '' @ install_fn))
     else
     and_then (bash e (''bash '' @ install_fn @ '' -b -p '' @ getcwd e @ ''/env'') None)
       (\<lambda>_.
     and_then (\<lambda>w. (case getattr_val self ''use_python2'' of Inl x \<Rightarrow> Inl x
                     | Inr v \<Rightarrow> Inr (truthy (heap w) v), w))
       (\<lambda>use_python2.
     if use_python2
     then and_then (lift (case getattr_val self ''source_cmd'' of Inl x \<Rightarrow> Inl x | Inr v \<Rightarrow> py_str v))
            (\<lambda>source_cmd.
          and_then (bash e (source_cmd @ '' && conda create python=2 -y -n py2'') None)
            (\<lambda>_. ret self))
     else ret self)))))"

definition setitem_ref :: "pyval \<Rightarrow> string \<Rightarrow> pyval \<Rightarrow> unit action" where
  \<comment> \<open>\<^verbatim>\<open>obj[k] = v\<close> with a string key: on a dict it writes the shared object\<close>
  "setitem_ref obj k v w =
     (case obj of
        VRef a \<Rightarrow> (Inr (), w\<lparr>heap := (heap w)(a \<mapsto> dict_set k v (heap_dict (heap w) a))\<rparr>)
      | _ \<Rightarrow> (Inl TypeError, w))"

definition setup_anaconda_refresh :: "env \<Rightarrow> FactoryEnv \<Rightarrow> FactoryEnv action" where
  "setup_anaconda_refresh e self =
     and_then (\<lambda>w. (case getattr_val self ''use_python2'' of Inl x \<Rightarrow> Inl x
                     | Inr v \<Rightarrow> Inr (truthy (heap w) v), w))
       (\<lambda>use_python2.
     and_then
       (if use_python2
        then and_then (lift (getattr_val self ''loader_commands''))
               (\<lambda>lc.
             and_then (setitem_ref lc ''env_activate'' (VStr ''env/envs/py2/bin/activate py2''))
               (\<lambda>_. ret (setattr_val ''source_cmd'' (VStr ''source env/envs/py2/bin/activate py2'') self)))
        else ret self)
       (\<lambda>self.
     and_then (\<lambda>w. (case getattr_val self ''reqs_conda'' of Inl x \<Rightarrow> Inl x | Inr v \<Rightarrow> py_iter (heap w) v, w))
       (\<lambda>fns_conda.
     and_then (for_each fns_conda (\<lambda>fn.
         and_then (lift (case getattr_val self ''source_cmd'' of Inl x \<Rightarrow> Inl x | Inr v \<Rightarrow> py_str v))
           (\<lambda>source_cmd. bash e (source_cmd @ '' && conda install -y --file '' @ fn)
                (Some (''logs/log-anaconda-conda-'' @ basename fn)))))
       (\<lambda>_.
     and_then (\<lambda>w. (case getattr_val self ''reqs_pip'' of Inl x \<Rightarrow> Inl x | Inr v \<Rightarrow> py_iter (heap w) v, w))
       (\<lambda>fns_pip.
     and_then (for_each fns_pip (\<lambda>fn.
         and_then (lift (case getattr_val self ''source_cmd'' of Inl x \<Rightarrow> Inl x | Inr v \<Rightarrow> py_str v))
           (\<lambda>source_cmd. bash e (source_cmd @ '' && pip install -r '' @ fn)
                (Some (''logs/log-anaconda-conda-'' @ basename fn)))))
       (\<lambda>_. ret self))))))"

section \<open>Staleness check and registration\<close>

definition file_stamp :: "env \<Rightarrow> world \<Rightarrow> string \<Rightarrow> error + int" where
  \<comment> \<open>\<^verbatim>\<open>int(time.strftime('%Y%m%d%H%M%s',time.localtime(os.path.getmtime(fn))))\<close>\<close>
  "file_stamp e w fn =
     (case getmtime w fn of
        Inl x \<Rightarrow> Inl x
      | Inr t \<Rightarrow> py_int (VStr (strftime_stamp (localtime e t) t)))"

fun fns_changed_of :: "env \<Rightarrow> world \<Rightarrow> FactoryEnv \<Rightarrow> string list \<Rightarrow> error + string list" where
  \<comment> \<open>the list comprehension; the left operand of \<^verbatim>\<open>>\<close> is evaluated before the right\<close>
  "fns_changed_of e w self [] = Inr []"
| "fns_changed_of e w self (fn # fns) =
     (case file_stamp e w fn of
        Inl x \<Rightarrow> Inl x
      | Inr a \<Rightarrow>
         (case getattr_val self ''timestamp'' of
            Inl x \<Rightarrow> Inl x
          | Inr ts \<Rightarrow>
             (case py_int ts of
                Inl x \<Rightarrow> Inl x
              | Inr b \<Rightarrow>
                 (case fns_changed_of e w self fns of
                    Inl x \<Rightarrow> Inl x
                  | Inr r \<Rightarrow> Inr (if a > b then fn # r else r)))))"

fun spot_loop :: "env \<Rightarrow> world \<Rightarrow> FactoryEnv \<Rightarrow> string list option \<Rightarrow> string list
    \<Rightarrow> error + string list option" where
  \<comment> \<open>the \<^verbatim>\<open>for req_type in reqs_keys\<close> loop; the accumulator is the variable
      \<^verbatim>\<open>fns_changed\<close>, \<open>None\<close> while it is unbound\<close>
  "spot_loop e w self acc [] = Inr acc"
| "spot_loop e w self acc (req_type # rest) =
     (case dict_get (self_dict self) req_type of
        Inl x \<Rightarrow> Inl x
      | Inr v \<Rightarrow>
         (case py_iter (heap w) v of
            Inl x \<Rightarrow> Inl x
          | Inr fns \<Rightarrow>
             (case fns_changed_of e w self fns of
                Inl x \<Rightarrow> Inl x
              | Inr c \<Rightarrow> spot_loop e w self (Some c) rest)))"

definition reqs_keys :: "FactoryEnv \<Rightarrow> string list" where
  \<comment> \<open>\<^verbatim>\<open>[i for i in self.__dict__ if re.match('^reqs',i)]\<close>; the key \<^verbatim>\<open>config\<close> does not match\<close>
  "reqs_keys self = filter (\<lambda>i. take 4 i = ''reqs'') (dict_keys (self_dict self))"

definition any_fns_changed :: "env \<Rightarrow> world \<Rightarrow> FactoryEnv \<Rightarrow> error + bool" where
  \<comment> \<open>the loop, then \<^verbatim>\<open>any(fns_changed)\<close>: true when some element is a non-empty string\<close>
  "any_fns_changed e w self =
     (case spot_loop e w self None (reqs_keys self) of
        Inl x \<Rightarrow> Inl x
      | Inr None \<Rightarrow> Inl (UnboundLocalError ''fns_changed'')
      | Inr (Some fns_changed) \<Rightarrow> Inr (list_ex (\<lambda>fn. fn \<noteq> []) fns_changed))"

definition check_spotchange :: "env \<Rightarrow> FactoryEnv \<Rightarrow> bool action" where
  \<comment> \<open>the method only reads the filesystem and the object\<close>
  "check_spotchange e self w = (any_fns_changed e w self, w)"

text \<open>
  The attributes of an instance: the entries of \<^verbatim>\<open>self.__dict__\<close>, the names the class
  body binds, and what every class inherits from \<^verbatim>\<open>object\<close> (Python 3.11). The inherited
  ones are listed by what calling them with no argument does: the value is not callable,
  the call returns, or the call lacks an argument.
\<close>

definition class_attrs :: "string list" where
  "class_attrs = [''meta'', ''required_folders'', ''__init__'', ''check_spotchange'',
     ''register_finished'', ''setup_virtualenv_sandbox'', ''setup_virtualenv'',
     ''setup_virtualenv_refresh'', ''welcome_message'', ''setup_anaconda'',
     ''setup_anaconda_refresh'']"

definition object_values :: "string list" where
  "object_values = [''__dict__'', ''__doc__'', ''__module__'', ''__weakref__'']"

definition object_methods_nullary :: "string list" where
  "object_methods_nullary = [''__dir__'', ''__getstate__'', ''__hash__'', ''__init_subclass__'',
     ''__reduce__'', ''__repr__'', ''__sizeof__'', ''__str__'', ''__subclasshook__'']"

definition object_methods_nary :: "string list" where
  "object_methods_nary = [''__delattr__'', ''__eq__'', ''__format__'', ''__ge__'',
     ''__getattribute__'', ''__gt__'', ''__le__'', ''__lt__'', ''__ne__'', ''__new__'',
     ''__reduce_ex__'', ''__setattr__'']"

definition hasattr :: "FactoryEnv \<Rightarrow> string \<Rightarrow> bool" where
  "hasattr self name =
     (name = ''config'' \<or> name \<in> set (dict_keys (self_dict self)) \<or> name \<in> set class_attrs
      \<or> name = ''__class__'' \<or> name \<in> set object_values
      \<or> name \<in> set object_methods_nullary \<or> name \<in> set object_methods_nary)"

definition getitem_ref :: "pyval \<Rightarrow> string \<Rightarrow> pyval action" where
  \<comment> \<open>\<^verbatim>\<open>obj[k]\<close> with a string key\<close>
  "getitem_ref obj k w =
     (case obj of
        VRef a \<Rightarrow> (dict_get (heap_dict (heap w) a) k, w)
      | _ \<Rightarrow> (Inl TypeError, w))"

definition register_finished :: "env \<Rightarrow> FactoryEnv \<Rightarrow> FactoryEnv action" where
  "register_finished e self =
     and_then
       (if hasattr self ''loader_commands''
        then and_then (lift (getattr_val self ''loader_commands''))
               (\<lambda>lc.
             and_then (getitem_ref lc ''env_activate'')
               (\<lambda>v. ret (self\<lparr>self_config := (self_config self)(''activate_env'' \<mapsto> v)\<rparr>)))
        else ret self)
       (\<lambda>self.
     let self = self\<lparr>self_config := (self_config self)
                  (''setup_stamp'' \<mapsto> VStr (strftime_stamp (localtime e (now e)) (now e)))\<rparr>
     in and_then (write_config (self_config self)) (\<lambda>_. ret self))"

section \<open>Dispatch by name and the constructor\<close>

definition method_of :: "env \<Rightarrow> string \<Rightarrow> (FactoryEnv \<Rightarrow> FactoryEnv action) option" where
  \<comment> \<open>the methods of the class that \<^verbatim>\<open>getattr(self,name)()\<close> can call with no argument\<close>
  "method_of e name =
     (if name = ''check_spotchange''
        then Some (\<lambda>self. and_then (check_spotchange e self) (\<lambda>_. ret self))
      else if name = ''register_finished'' then Some (register_finished e)
      else if name = ''setup_virtualenv_sandbox'' then Some (setup_virtualenv_sandbox e)
      else if name = ''setup_virtualenv'' then Some (setup_virtualenv e False)
      else if name = ''setup_virtualenv_refresh'' then Some (setup_virtualenv_refresh e)
      else if name = ''welcome_message'' then Some welcome_message
      else if name = ''setup_anaconda'' then Some (setup_anaconda e)
      else if name = ''setup_anaconda_refresh'' then Some (setup_anaconda_refresh e)
      else None)"

text \<open>
  \<^verbatim>\<open>getattr(self,name)()\<close>. The name must be a string. \<^verbatim>\<open>__class__\<close> is found on the class
  before the instance is asked; any other name is looked up in the instance first, and no
  value held there is callable. Then come the methods of the class, and the attributes
  inherited from \<^verbatim>\<open>object\<close>. \<open>Invoke\<close> and \<open>Return\<close> mark a call and its normal return.
  Calling \<^verbatim>\<open>__class__\<close> or \<^verbatim>\<open>__init__\<close> would run the constructor from inside itself; the
  embedding stops there.
\<close>

definition call_method :: "env \<Rightarrow> pyval \<Rightarrow> FactoryEnv \<Rightarrow> FactoryEnv action" where
  "call_method e name self =
     (case name of
        VStr n \<Rightarrow>
          if n = ''__class__'' then raise (NotModelled n)
          else if n = ''config'' \<or> n \<in> set (dict_keys (self_dict self)) then raise TypeError
          else (case method_of e n of
                  Some f \<Rightarrow>
                    and_then (emit (Invoke n))
                      (\<lambda>_. and_then (f self)
                      (\<lambda>self. and_then (emit (Return n))
                      (\<lambda>_. ret self)))
                | None \<Rightarrow>
                    if n = ''__init__'' then raise (NotModelled n)
                    else if n \<in> set object_methods_nullary
                      then and_then (emit (Invoke n)) (\<lambda>_. and_then (emit (Return n)) (\<lambda>_. ret self))
                    else if n \<in> set class_attrs \<or> n \<in> set object_values
                            \<or> n \<in> set object_methods_nary
                      then raise TypeError
                    else raise (AttributeError n))
      | _ \<Rightarrow> raise TypeError)"

definition ensure_folder :: "env \<Rightarrow> string \<Rightarrow> unit action" where
  \<comment> \<open>\<^verbatim>\<open>if not os.path.isdir(fn): os.mkdir(fn)\<close>\<close>
  "ensure_folder e fn w = (if isdir w fn then (Inr (), w) else mkdir e fn w)"

definition species_items :: "pyheap \<Rightarrow> pyval \<Rightarrow> error + pydict" where
  \<comment> \<open>the pairs \<^verbatim>\<open>(key, self.meta[kind][key])\<close> that \<^verbatim>\<open>for key in self.meta[kind]\<close> walks
      through: the entries of a dictionary; indexing a string or a list by one of its own
      elements raises, so only an empty one passes\<close>
  "species_items h v =
     (case v of
        VRef a \<Rightarrow> Inr (heap_dict h a)
      | VStr s \<Rightarrow> if s = [] then Inr [] else Inl TypeError
      | VList xs \<Rightarrow> if xs = [] then Inr [] else Inl TypeError
      | _ \<Rightarrow> Inl TypeError)"

definition inject :: "pydict \<Rightarrow> FactoryEnv \<Rightarrow> error + FactoryEnv" where
  \<comment> \<open>\<^verbatim>\<open>for key in self.meta[kind]: self.__dict__[key] = self.meta[kind][key]\<close>. A key
      \<^verbatim>\<open>config\<close> would replace \<^verbatim>\<open>self.config\<close>, which this record keeps apart; the
      embedding stops there.\<close>
  "inject species self =
     (if ''config'' \<in> set (dict_keys species) then Inl (NotModelled ''config'')
      else Inr (foldl (\<lambda>s (key, v). setattr_val key v s) self species))"

definition FactoryEnv_init :: "env \<Rightarrow> bool \<Rightarrow> FactoryEnv action" where
  "FactoryEnv_init e refresh =
     and_then (for_each required_folders (ensure_folder e))
       (\<lambda>_.
     and_then read_config
       (\<lambda>config.
     let self = \<lparr>self_config = config, self_dict = []\<rparr>;
         self = setattr_val ''timestamp'' (config_get config ''setup_stamp'') self;
         kind = config_get config ''species''
     in
     and_then (\<lambda>w. (py_in_keys kind (meta (heap w)), w))
       (\<lambda>known.
     if \<not> known then raise (SystemExit 1)
     else
     let self = setattr_val ''kind'' kind self in
     and_then (\<lambda>w. (case py_str kind of
                       Inl x \<Rightarrow> Inl x
                     | Inr k \<Rightarrow> (case dict_get (meta (heap w)) k of
                                  Inl x \<Rightarrow> Inl x
                                | Inr v \<Rightarrow> species_items (heap w) v), w))
       (\<lambda>species.
     and_then (lift (inject species self))
       (\<lambda>self.
     and_then (\<lambda>w. (case getattr_val self ''timestamp'' of Inl x \<Rightarrow> Inl x
                     | Inr ts \<Rightarrow> Inr (truthy (heap w) ts), w))
       (\<lambda>has_stamp.
     and_then (if has_stamp then check_spotchange e self else ret False)
       (\<lambda>changed.
     let do_refresh = (changed \<or> refresh) in
     and_then (if \<not> has_stamp
               then and_then (lift (getattr_val self ''setup_kickstart''))
                      (\<lambda>name. call_method e name self)
               else ret self)
       (\<lambda>self.
     and_then (if \<not> has_stamp \<or> do_refresh
               then and_then (lift (getattr_val self ''setup_refresh''))
                      (\<lambda>name. call_method e name self)
               else ret self)
       (\<lambda>self.
     and_then (register_finished e self)
       (\<lambda>self.
     and_then (lift (getattr_val self ''welcome''))
       (\<lambda>welcome.
     and_then (lift (case welcome of VStr n \<Rightarrow> Inr (hasattr self n) | _ \<Rightarrow> Inl TypeError))
       (\<lambda>has_welcome.
     if has_welcome then call_method e welcome self else ret self))))))))))))"

definition setup_run :: "env \<Rightarrow> bool \<Rightarrow> unit action" where
  \<comment> \<open>the function \<^verbatim>\<open>setup(refresh=False)\<close>, whose body is
      \<^verbatim>\<open>env = FactoryEnv(refresh=True)\<close>: the argument is not used\<close>
  "setup_run e refresh = and_then (FactoryEnv_init e True) (\<lambda>_. ret ())"

definition init :: "env \<Rightarrow> bool \<Rightarrow> unit action" where
  "init e refresh = setup_run e refresh"

section \<open>Notions used to state the properties\<close>

text \<open>
  The registry as the class body leaves it is \<open>class_heap\<close>. The only write to a registry
  object at run time is the one in \<^verbatim>\<open>setup_anaconda_refresh\<close>; \<open>class_heap_py2\<close> is the
  registry after it. A process has one of the two.
\<close>

definition class_heap_py2 :: pyheap where
  "class_heap_py2 =
     class_heap(14 \<mapsto> dict_set ''env_activate'' (VStr ''env/envs/py2/bin/activate py2'')
                        (heap_dict class_heap 14))"

definition loaded :: "pyheap \<Rightarrow> bool" where
  "loaded h = (h = class_heap \<or> h = class_heap_py2)"

definition ensured :: "env \<Rightarrow> string \<Rightarrow> world \<Rightarrow> world" where
  \<comment> \<open>the world once the folder has been created where nothing was\<close>
  "ensured e fn w =
     (if fs w fn = None then w\<lparr>fs := (fs w)(fn \<mapsto> Dir (mkdir_time e fn))\<rparr> else w)"

definition scaffolded :: "env \<Rightarrow> world \<Rightarrow> world" where
  \<comment> \<open>the world once the two required folders have been seen to\<close>
  "scaffolded e w = ensured e ''connections'' (ensured e ''logs'' w)"

definition is_marker :: "event \<Rightarrow> bool" where
  \<comment> \<open>hook calls, hook returns and config writes, as opposed to shell commands\<close>
  "is_marker ev = (case ev of Bash c l \<Rightarrow> False | _ \<Rightarrow> True)"

definition new_events :: "world \<Rightarrow> world \<Rightarrow> event list" where
  \<comment> \<open>what a run from \<open>w\<close> to \<open>w'\<close> appended to the trace\<close>
  "new_events w w' = drop (length (trace w)) (trace w')"

definition species_attr :: "pyheap \<Rightarrow> string \<Rightarrow> string \<Rightarrow> pyval" where
  \<comment> \<open>\<^verbatim>\<open>meta[kind].get(field)\<close>\<close>
  "species_attr h kind field =
     (case meta_item h kind of
        Inl x \<Rightarrow> VNone
      | Inr d \<Rightarrow> (case map_of d field of None \<Rightarrow> VNone | Some v \<Rightarrow> v))"

definition dependency_files :: "pyheap \<Rightarrow> string \<Rightarrow> string list" where
  \<comment> \<open>every path of every list of the species whose key starts with \<^verbatim>\<open>reqs\<close>\<close>
  "dependency_files h kind =
     (case meta_item h kind of
        Inl x \<Rightarrow> []
      | Inr d \<Rightarrow> concat (map (\<lambda>(key, v). case v of VList fns \<Rightarrow> fns | _ \<Rightarrow> [])
                          (filter (\<lambda>(key, v). take 4 key = ''reqs'') d)))"

definition activation_command :: "pyheap \<Rightarrow> string \<Rightarrow> pyval" where
  \<comment> \<open>\<^verbatim>\<open>meta[kind]['loader_commands']['env_activate']\<close>\<close>
  "activation_command h kind =
     (case species_attr h kind ''loader_commands'' of
        VRef a \<Rightarrow> (case map_of (heap_dict h a) ''env_activate'' of None \<Rightarrow> VNone | Some v \<Rightarrow> v)
      | _ \<Rightarrow> VNone)"

definition resolve :: "pyheap \<Rightarrow> string \<Rightarrow> error + (string \<times> (pyval + pydict)) list" where
  \<comment> \<open>the configuration a lookup of the species yields, a dictionary it refers to taken
      with its contents\<close>
  "resolve h kind =
     (case meta_item h kind of
        Inl x \<Rightarrow> Inl x
      | Inr d \<Rightarrow> Inr (map (\<lambda>(field, v). (field, case v of VRef a \<Rightarrow> Inr (heap_dict h a) | _ \<Rightarrow> Inl v)) d))"

definition installer_present :: "env \<Rightarrow> world \<Rightarrow> bool" where
  \<comment> \<open>the config names an Anaconda installer, and the file is there\<close>
  "installer_present e w =
     (case config_get (stored w) ''anaconda_location'' of
        VStr p \<Rightarrow> p \<noteq> [] \<and> isfile w (abspath e p)
      | _ \<Rightarrow> False)"

definition registered :: "env \<Rightarrow> pyval \<Rightarrow> world \<Rightarrow> world" where
  \<comment> \<open>the world after a run that called no hook but the welcome: the folders, the two
      entries of the record, the write and the welcome\<close>
  "registered e activate w =
     (scaffolded e w)
       \<lparr>stored := (stored w)(''activate_env'' \<mapsto> activate,
                   ''setup_stamp'' \<mapsto> VStr (strftime_stamp (localtime e (now e)) (now e))),
        trace := trace w @ [WriteConfig, Invoke ''welcome_message'', Return ''welcome_message'']\<rparr>"

text \<open>
  A broken-down time as \<^verbatim>\<open>time.localtime\<close> returns it, and the order of two of them by
  year, month, day, hour and minute.
\<close>

definition valid_tm :: "struct_time \<Rightarrow> bool" where
  "valid_tm st = (1 \<le> tm_mon st \<and> tm_mon st \<le> 12 \<and> 1 \<le> tm_mday st \<and> tm_mday st \<le> 31
                  \<and> tm_hour st \<le> 23 \<and> tm_min st \<le> 59)"

fun lex_le :: "nat list \<Rightarrow> nat list \<Rightarrow> bool" where
  "lex_le [] ys = True"
| "lex_le (x # xs) [] = False"
| "lex_le (x # xs) (y # ys) = (x < y \<or> (x = y \<and> lex_le xs ys))"

definition calendar_fields :: "struct_time \<Rightarrow> nat list" where
  "calendar_fields st = [tm_year st, tm_mon st, tm_mday st, tm_hour st, tm_min st]"

definition calendar_le :: "struct_time \<Rightarrow> struct_time \<Rightarrow> bool" where
  "calendar_le a b = lex_le (calendar_fields a) (calendar_fields b)"

definition stamp_prefix :: "struct_time \<Rightarrow> nat" where
  \<comment> \<open>the number that the calendar part of a stamp spells\<close>
  "stamp_prefix st =
     (((tm_year st * 100 + tm_mon st) * 100 + tm_mday st) * 100 + tm_hour st) * 100 + tm_min st"

text \<open>
  The constructor from the staleness check on, given the object as the injection leaves it,
  and that object for each species of the registry.
\<close>

definition phases :: "env \<Rightarrow> bool \<Rightarrow> FactoryEnv \<Rightarrow> FactoryEnv action" where
  "phases e refresh self =
     and_then (\<lambda>w. (case getattr_val self ''timestamp'' of Inl x \<Rightarrow> Inl x
                     | Inr ts \<Rightarrow> Inr (truthy (heap w) ts), w))
       (\<lambda>has_stamp.
     and_then (if has_stamp then check_spotchange e self else ret False)
       (\<lambda>changed.
     let do_refresh = (changed \<or> refresh) in
     and_then (if \<not> has_stamp
               then and_then (lift (getattr_val self ''setup_kickstart''))
                      (\<lambda>name. call_method e name self)
               else ret self)
       (\<lambda>self.
     and_then (if \<not> has_stamp \<or> do_refresh
               then and_then (lift (getattr_val self ''setup_refresh''))
                      (\<lambda>name. call_method e name self)
               else ret self)
       (\<lambda>self.
     and_then (register_finished e self)
       (\<lambda>self.
     and_then (lift (getattr_val self ''welcome''))
       (\<lambda>welcome.
     and_then (lift (case welcome of VStr n \<Rightarrow> Inr (hasattr self n) | _ \<Rightarrow> Inl TypeError))
       (\<lambda>has_welcome.
     if has_welcome then call_method e welcome self else ret self)))))))"

definition self_virtualenv :: "config \<Rightarrow> FactoryEnv" where
  "self_virtualenv c = \<lparr>self_config = c, self_dict =
     [(''timestamp'', config_get c ''setup_stamp''), (''kind'', VStr ''virtualenv''),
      (''reqs'', VList [''mill/requirements_virtualenv.txt'']),
      (''setup_kickstart'', VStr ''setup_virtualenv''),
      (''setup_refresh'', VStr ''setup_virtualenv_refresh''),
      (''loader_commands'', VRef 13),
      (''welcome'', VStr ''welcome_message''),
      (''source_cmd'', VStr ''source env/bin/activate'')]\<rparr>"

definition self_sandbox :: "config \<Rightarrow> FactoryEnv" where
  "self_sandbox c = \<lparr>self_config = c, self_dict =
     [(''timestamp'', config_get c ''setup_stamp''), (''kind'', VStr ''virtualenv_sandbox''),
      (''reqs'', VList [''mill/requirements_virtualenv.txt'']),
      (''setup_kickstart'', VStr ''setup_virtualenv_sandbox''),
      (''setup_refresh'', VStr ''setup_virtualenv_refresh''),
      (''loader_commands'', VRef 13),
      (''welcome'', VStr ''welcome_message''),
      (''source_cmd'', VStr ''source env/bin/activate'')]\<rparr>"

definition self_anaconda :: "config \<Rightarrow> FactoryEnv" where
  "self_anaconda c = \<lparr>self_config = c, self_dict =
     [(''timestamp'', config_get c ''setup_stamp''), (''kind'', VStr ''anaconda''),
      (''reqs_conda'', VList [''mill/requirements_anaconda_conda.txt'']),
      (''reqs_pip'', VList [''mill/requirements_anaconda_pip.txt'']),
      (''setup_kickstart'', VStr ''setup_anaconda''),
      (''setup_refresh'', VStr ''setup_anaconda_refresh''),
      (''loader_commands'', VRef 14),
      (''welcome'', VStr ''welcome_message''),
      (''source_cmd'', VStr ''source env/bin/activate''),
      (''use_python2'', VBool True)]\<rparr>"

text \<open>
  What every run of the constructor for a species \<open>k\<close> of the registry does to the world,
  whatever the environment answers: the filesystem is touched by the two folders only; the
  registry changes in one way only; a failed run leaves the record and writes nothing; a run
  that returns has written the record once, with the activation command and the stamp, and
  its refresh hook, if called, has returned.
\<close>

definition outcome :: "env \<Rightarrow> string \<Rightarrow> world \<Rightarrow> (error + FactoryEnv) \<times> world \<Rightarrow> bool" where
  "outcome e k w rw =
     (case rw of (res, w') \<Rightarrow>
        fs w' = fs (scaffolded e w) \<and>
        (heap w' = heap w \<or> (k = ''anaconda'' \<and> heap w' = class_heap_py2)) \<and>
        (Invoke ''setup_anaconda_refresh'' \<in> set (new_events w w') \<longrightarrow> heap w' = class_heap_py2) \<and>
        (case res of
           Inl err \<Rightarrow> stored w' = stored w \<and> WriteConfig \<notin> set (new_events w w')
         | Inr self \<Rightarrow>
             stored w' = (stored w)(''activate_env'' \<mapsto> activation_command (heap w') k,
                 ''setup_stamp'' \<mapsto> VStr (strftime_stamp (localtime e (now e)) (now e))) \<and>
             filter (\<lambda>ev. ev = WriteConfig) (new_events w w') = [WriteConfig] \<and>
             (Invoke (case species_attr (heap w) k ''setup_refresh'' of VStr n \<Rightarrow> n | _ \<Rightarrow> [])
                \<in> set (new_events w w')
              \<longrightarrow> Return (case species_attr (heap w) k ''setup_refresh'' of VStr n \<Rightarrow> n | _ \<Rightarrow> [])
                \<in> set (new_events w w'))))"

definition first_run_shape :: "string \<Rightarrow> string \<Rightarrow> world \<Rightarrow> (error + FactoryEnv) \<times> world \<Rightarrow> bool" where
  \<comment> \<open>the hook calls, returns and writes of a first run, in order\<close>
  "first_run_shape kick refr w rw =
     (case rw of (res, w') \<Rightarrow>
        (case res of
           Inr self \<Rightarrow> filter is_marker (new_events w w') =
              [Invoke kick, Return kick, Invoke refr, Return refr,
               WriteConfig, Invoke ''welcome_message'', Return ''welcome_message'']
         | Inl err \<Rightarrow> filter is_marker (new_events w w') = [Invoke kick] \<or>
              filter is_marker (new_events w w') = [Invoke kick, Return kick, Invoke refr]))"

section \<open>Example inputs\<close>

definition utc_2017_01_01 :: "nat \<Rightarrow> struct_time" where
  \<comment> \<open>\<^verbatim>\<open>time.localtime\<close> in UTC for the seconds of 1 January 2017, which starts at 1483228800\<close>
  "utc_2017_01_01 t =
     \<lparr>tm_year = 2017, tm_mon = 1, tm_mday = 1,
      tm_hour = (t - 1483228800) div 3600, tm_min = ((t - 1483228800) div 60) mod 60\<rparr>"

definition env_ok :: env where
  \<comment> \<open>01:00:00 on that day; every shell command succeeds; \<^verbatim>\<open>is_terminal_command\<close> is false\<close>
  "env_ok =
     \<lparr>now = 1483232400, mkdir_time = (\<lambda>p. 1483232400), localtime = utc_2017_01_01,
      bash_ok = (\<lambda>cmd. True), is_terminal_command = (\<lambda>cmd. False), getcwd = ''/home/factory'',
      abspath = (\<lambda>p. p)\<rparr>"

definition env_later :: env where
  \<comment> \<open>03:00:00 on that day\<close>
  "env_later = env_ok\<lparr>now := 1483239600, mkdir_time := (\<lambda>p. 1483239600)\<rparr>"

definition env_pip_fails :: env where
  \<comment> \<open>the virtual environment is created, every later shell command fails\<close>
  "env_pip_fails = env_ok\<lparr>bash_ok := (\<lambda>cmd. cmd = ''virtualenv --system-site-packages env'')\<rparr>"



definition world_fresh :: world where
  \<comment> \<open>the species chosen, nothing set up yet\<close>
  "world_fresh =
     \<lparr>fs = [''mill/requirements_virtualenv.txt'' \<mapsto> File 1483228900],
      stored = [''species'' \<mapsto> VStr ''virtualenv''], heap = class_heap, trace = []\<rparr>"

definition first_run_trace :: "event list" where
  "first_run_trace =
     [Invoke ''setup_virtualenv'',
      Bash ''virtualenv --system-site-packages env'' (Some ''logs/log-virtualenv''),
      Return ''setup_virtualenv'',
      Invoke ''setup_virtualenv_refresh'',
      Bash ''source env/bin/activate && pip install -r mill/requirements_virtualenv.txt''
        (Some (''logs/log-virtualenv-pip-'' @ basename ''mill/requirements_virtualenv.txt'')),
      Bash (''source env/bin/activate && pip install -U '' @ join '' '' (map quoted required_upgrades))
        (Some ''logs/log-virtualenv-pip''),
      Return ''setup_virtualenv_refresh'',
      WriteConfig,
      Invoke ''welcome_message'',
      Return ''welcome_message'']"

definition world_once :: world where
  \<comment> \<open>\<open>world_fresh\<close> after its first run under \<open>env_ok\<close>\<close>
  "world_once =
     \<lparr>fs = [''mill/requirements_virtualenv.txt'' \<mapsto> File 1483228900,
            ''logs'' \<mapsto> Dir 1483232400, ''connections'' \<mapsto> Dir 1483232400],
      stored = [''species'' \<mapsto> VStr ''virtualenv'', ''activate_env'' \<mapsto> VStr ''env/bin/activate'',
                ''setup_stamp'' \<mapsto> VStr ''2017010101001483232400''],
      heap = class_heap, trace = first_run_trace\<rparr>"

definition world_stale_anaconda :: world where
  \<comment> \<open>set up at 01:00:00; the conda requirements were edited at 02:00:00, the pip
      requirements were not\<close>
  "world_stale_anaconda =
     \<lparr>fs = [''mill/requirements_anaconda_conda.txt'' \<mapsto> File 1483236000,
            ''mill/requirements_anaconda_pip.txt'' \<mapsto> File 1483228900,
            ''logs'' \<mapsto> Dir 1483232400, ''connections'' \<mapsto> Dir 1483232400],
      stored = [''species'' \<mapsto> VStr ''anaconda'',
                ''activate_env'' \<mapsto> VStr ''env/envs/py2/bin/activate py2'',
                ''setup_stamp'' \<mapsto> VStr ''2017010101001483232400''],
      heap = class_heap, trace = []\<rparr>"

definition world_fresh_anaconda :: world where
  \<comment> \<open>the species \<^verbatim>\<open>anaconda\<close> chosen and its installer named, nothing set up yet\<close>
  "world_fresh_anaconda =
     \<lparr>fs = [''mill/requirements_anaconda_conda.txt'' \<mapsto> File 1483228900,
            ''mill/requirements_anaconda_pip.txt'' \<mapsto> File 1483228900,
            ''/opt/Anaconda3-4.2.0-Linux-x86_64.sh'' \<mapsto> File 1483228900],
      stored = [''species'' \<mapsto> VStr ''anaconda'',
                ''anaconda_location'' \<mapsto> VStr ''/opt/Anaconda3-4.2.0-Linux-x86_64.sh''],
      heap = class_heap, trace = []\<rparr>"

definition world_missing :: world where
  \<comment> \<open>\<open>world_once\<close> with the requirements file gone\<close>
  "world_missing =
     world_once\<lparr>fs := [''logs'' \<mapsto> Dir 1483232400, ''connections'' \<mapsto> Dir 1483232400]\<rparr>"

definition world_missing_logs_taken :: world where
  \<comment> \<open>a record with a stamp, the requirements file gone, and a regular file named
      \<^verbatim>\<open>logs\<close>\<close>
  "world_missing_logs_taken = world_once\<lparr>fs := [''logs'' \<mapsto> File 1483228900]\<rparr>"

section \<open>Facts about the registry\<close>

lemmas heap_eval = class_heap_def meta_literal_def heap_dict_def dict_set_def Let_def class_heap_py2_def

lemma class_heap_10:
  "heap_dict class_heap 10 =
     [(''virtualenv'', VRef 11), (''anaconda'', VRef 12), (''virtualenv_sandbox'', VRef 15)]"
  by (simp add: heap_eval)

lemma class_heap_11:
  "heap_dict class_heap 11 =
     [(''reqs'', VList [''mill/requirements_virtualenv.txt'']),
      (''setup_kickstart'', VStr ''setup_virtualenv''),
      (''setup_refresh'', VStr ''setup_virtualenv_refresh''),
      (''loader_commands'', VRef 13),
      (''welcome'', VStr ''welcome_message''),
      (''source_cmd'', VStr ''source env/bin/activate'')]"
  by (simp add: heap_eval)

lemma class_heap_12:
  "heap_dict class_heap 12 =
     [(''reqs_conda'', VList [''mill/requirements_anaconda_conda.txt'']),
      (''reqs_pip'', VList [''mill/requirements_anaconda_pip.txt'']),
      (''setup_kickstart'', VStr ''setup_anaconda''),
      (''setup_refresh'', VStr ''setup_anaconda_refresh''),
      (''loader_commands'', VRef 14),
      (''welcome'', VStr ''welcome_message''),
      (''source_cmd'', VStr ''source env/bin/activate''),
      (''use_python2'', VBool True)]"
  by (simp add: heap_eval)

lemma class_heap_13:
  "heap_dict class_heap 13 =
     [(''env_activate'', VStr ''env/bin/activate''), (''env_deactivate'', VStr ''deactivate'')]"
  by (simp add: heap_eval)

lemma class_heap_14:
  "heap_dict class_heap 14 =
     [(''env_activate'', VStr ''env/bin/activate''), (''env_deactivate'', VStr ''deactivate'')]"
  by (simp add: heap_eval)

lemma class_heap_15:
  "heap_dict class_heap 15 =
     [(''reqs'', VList [''mill/requirements_virtualenv.txt'']),
      (''setup_kickstart'', VStr ''setup_virtualenv_sandbox''),
      (''setup_refresh'', VStr ''setup_virtualenv_refresh''),
      (''loader_commands'', VRef 13),
      (''welcome'', VStr ''welcome_message''),
      (''source_cmd'', VStr ''source env/bin/activate'')]"
  by (simp add: heap_eval)

lemma py2_heap_other: "a \<noteq> 14 \<Longrightarrow> heap_dict class_heap_py2 a = heap_dict class_heap a"
  by (simp add: class_heap_py2_def heap_dict_def)

lemma py2_heap_14:
  "heap_dict class_heap_py2 14 =
     [(''env_activate'', VStr ''env/envs/py2/bin/activate py2''),
      (''env_deactivate'', VStr ''deactivate'')]"
  by (simp add: class_heap_py2_def class_heap_14 dict_set_def) (simp add: heap_dict_def)

lemma loaded_dicts:
  assumes "loaded h"
  shows "heap_dict h 10 =
           [(''virtualenv'', VRef 11), (''anaconda'', VRef 12), (''virtualenv_sandbox'', VRef 15)]"
    and "heap_dict h 11 =
           [(''reqs'', VList [''mill/requirements_virtualenv.txt'']),
            (''setup_kickstart'', VStr ''setup_virtualenv''),
            (''setup_refresh'', VStr ''setup_virtualenv_refresh''),
            (''loader_commands'', VRef 13),
            (''welcome'', VStr ''welcome_message''),
            (''source_cmd'', VStr ''source env/bin/activate'')]"
    and "heap_dict h 12 =
           [(''reqs_conda'', VList [''mill/requirements_anaconda_conda.txt'']),
            (''reqs_pip'', VList [''mill/requirements_anaconda_pip.txt'']),
            (''setup_kickstart'', VStr ''setup_anaconda''),
            (''setup_refresh'', VStr ''setup_anaconda_refresh''),
            (''loader_commands'', VRef 14),
            (''welcome'', VStr ''welcome_message''),
            (''source_cmd'', VStr ''source env/bin/activate''),
            (''use_python2'', VBool True)]"
    and "heap_dict h 13 =
           [(''env_activate'', VStr ''env/bin/activate''), (''env_deactivate'', VStr ''deactivate'')]"
    and "heap_dict h 15 =
           [(''reqs'', VList [''mill/requirements_virtualenv.txt'']),
            (''setup_kickstart'', VStr ''setup_virtualenv_sandbox''),
            (''setup_refresh'', VStr ''setup_virtualenv_refresh''),
            (''loader_commands'', VRef 13),
            (''welcome'', VStr ''welcome_message''),
            (''source_cmd'', VStr ''source env/bin/activate'')]"
  using assms
  by (auto simp: loaded_def py2_heap_other class_heap_10 class_heap_11 class_heap_12
      class_heap_13 class_heap_15)

lemma meta_loaded:
  "loaded h \<Longrightarrow> meta h =
     [(''virtualenv'', VRef 11), (''anaconda'', VRef 12), (''virtualenv_sandbox'', VRef 15)]"
  by (simp add: meta_def loaded_dicts)

lemma meta_item_loaded:
  assumes "loaded h"
  shows "meta_item h ''virtualenv'' = Inr (heap_dict class_heap 11)"
    and "meta_item h ''anaconda'' = Inr (heap_dict class_heap 12)"
    and "meta_item h ''virtualenv_sandbox'' = Inr (heap_dict class_heap 15)"
  using assms by (simp_all add: meta_item_def meta_loaded dict_get_def loaded_dicts
      class_heap_11 class_heap_12 class_heap_15)

lemma loaded_class [simp]: "loaded class_heap" "loaded class_heap_py2"
  by (simp_all add: loaded_def)

section \<open>The two folders\<close>

lemma scaffolded_simps [simp]:
  "heap (scaffolded e w) = heap w" "stored (scaffolded e w) = stored w"
  "trace (scaffolded e w) = trace w"
  "heap (ensured e fn w) = heap w" "stored (ensured e fn w) = stored w"
  "trace (ensured e fn w) = trace w"
  by (simp_all add: scaffolded_def ensured_def)

lemma isfile_ensured [simp]: "isfile (ensured e fn w) p = isfile w p"
  by (auto simp: ensured_def isfile_def)

lemma isfile_scaffolded [simp]: "isfile (scaffolded e w) p = isfile w p"
  by (simp add: scaffolded_def)

lemma fs_scaffolded: "p \<noteq> ''logs'' \<Longrightarrow> p \<noteq> ''connections'' \<Longrightarrow> fs (scaffolded e w) p = fs w p"
  by (simp add: scaffolded_def ensured_def)

lemma ensure_folder_cases:
  "ensure_folder e fn w =
     (if isfile w fn then (Inl (FileExistsError fn), w) else (Inr (), ensured e fn w))"
  by (cases "fs w fn"; cases "the (fs w fn)")
     (simp_all add: ensure_folder_def isdir_def isfile_def mkdir_def ensured_def)

lemma scaffold_cases:
  "for_each required_folders (ensure_folder e) w =
     (if isfile w ''logs'' then (Inl (FileExistsError ''logs''), w)
      else if isfile w ''connections''
        then (Inl (FileExistsError ''connections''), ensured e ''logs'' w)
      else (Inr (), scaffolded e w))"
  by (simp add: required_folders_def ensure_folder_cases and_then_def ret_def scaffolded_def)

lemma scaffold:
  "\<not> isfile w ''logs'' \<Longrightarrow> \<not> isfile w ''connections'' \<Longrightarrow>
   for_each required_folders (ensure_folder e) w = (Inr (), scaffolded e w)"
  by (simp add: scaffold_cases)

section \<open>The properties\<close>




text \<open>
  C8. The dictionary of \<^verbatim>\<open>virtualenv_sandbox\<close> has the keys of the dictionary of
  \<^verbatim>\<open>virtualenv\<close>, in the same order; its \<^verbatim>\<open>setup_kickstart\<close> is its own
  (\<^verbatim>\<open>setup_virtualenv_sandbox\<close> instead of \<^verbatim>\<open>setup_virtualenv\<close>), and every other field,
  the refresh operation among them, has the value it has in \<^verbatim>\<open>virtualenv\<close> (for
  \<^verbatim>\<open>loader_commands\<close>, the very same object). This holds in every state of the registry
  a process can reach.
\<close>

theorem sandbox_overrides_kickstart_only:
  assumes "loaded h"
  shows "\<exists>base derived.
           meta_item h ''virtualenv'' = Inr base \<and>
           meta_item h ''virtualenv_sandbox'' = Inr derived \<and>
           dict_keys derived = dict_keys base \<and>
           map_of base ''setup_kickstart'' = Some (VStr ''setup_virtualenv'') \<and>
           map_of derived ''setup_kickstart'' = Some (VStr ''setup_virtualenv_sandbox'') \<and>
           map_of derived ''setup_refresh'' = Some (VStr ''setup_virtualenv_refresh'') \<and>
           (\<forall>field. field \<noteq> ''setup_kickstart'' \<longrightarrow> map_of derived field = map_of base field)"
  using assms
  by (simp add: meta_item_loaded class_heap_11 class_heap_15 dict_keys_def)

theorem sandbox_overrides_kickstart_only_witness:
  "loaded class_heap \<and> ''setup_refresh'' \<noteq> ''setup_kickstart'' \<and>
   species_attr class_heap ''virtualenv_sandbox'' ''setup_refresh''
     = species_attr class_heap ''virtualenv'' ''setup_refresh''"
proof -
  have l: "loaded class_heap" by (simp add: loaded_def)
  from sandbox_overrides_kickstart_only [OF l] obtain base derived where
    "meta_item class_heap ''virtualenv'' = Inr base"
    "meta_item class_heap ''virtualenv_sandbox'' = Inr derived"
    "\<forall>field. field \<noteq> ''setup_kickstart'' \<longrightarrow> map_of derived field = map_of base field"
    by blast
  then show ?thesis using l by (simp add: species_attr_def)
qed

end
